theory Spec2Isabelle
  imports Main
begin

section \<open>The blog application of main.py\<close>

text \<open>
  The program is a Flask application over three database tables. Its view functions read
  and write the tables through the ORM session and read the logged-in user from the
  request's session cookie. The model passes both explicitly: every view function takes
  the state (the three tables, the session's user id and the flashed messages) and
  returns a response together with the new state.

  Parts the views use that are not in main.py are inputs of the model:
  \<^item> the form classes of forms.py: the field values a form object holds for the request
    are the \<open>form\<close> component of the request, and the outcome of its validators is the
    parameter \<open>validate\<close>;
  \<^item> the password hashing of the security library: the parameters
    \<open>generate_password_hash\<close> (with the salt it draws as an argument) and
    \<open>check_password_hash\<close>;
  \<^item> the clock: the parameter \<open>today\<close>, the formatted date;
  \<^item> the templates: a rendered page is represented by the template's name.
\<close>

subsection \<open>Tables\<close>

text \<open>
  One record per model class, one field per column, in the order of the class. The
  fields carry a prefix (\<open>u_\<close>, \<open>bp_\<close>, \<open>c_\<close>) since the three classes share
  the column name \<open>id\<close>. Integer columns are \<open>int\<close>; the foreign-key columns are
  declared without \<open>nullable=False\<close>, so they are \<open>int option\<close> with \<open>None\<close>
  for NULL. The relationship attributes (\<open>author\<close>, \<open>posts\<close>, \<open>comments\<close>,
  \<open>comment_author\<close>, \<open>parent_post\<close>) are views of the foreign keys and are not
  stored.
\<close>

record blog_post =
  bp_id :: int
  bp_author_id :: "int option"
  bp_title :: string
  bp_subtitle :: string
  bp_date :: string
  bp_body :: string
  bp_img_url :: string

record user =
  u_id :: int
  u_email :: string
  u_password :: string
  u_name :: string

record comment =
  c_id :: int
  c_text :: string
  c_comment_author_id :: "int option"
  c_parent_post_id :: "int option"

text \<open>
  The state: the rows of the three tables in insertion order, the user id held by the
  session of the client making the request (\<open>None\<close> when nobody is logged in), and the
  messages flashed so far.
\<close>

record state =
  users :: "user list"
  blog_posts :: "blog_post list"
  comments :: "comment list"
  session :: "int option"
  flashes :: "string list"

definition empty_db :: state where
  "empty_db = \<lparr>users = [], blog_posts = [], comments = [], session = None, flashes = []\<rparr>"

subsection \<open>Requests and responses\<close>

datatype http_method = GET | HEAD | OPTIONS | POST | PUT | PATCH | DELETE

record 'f request =
  req_method :: http_method
  form :: 'f

record register_form =
  rf_email :: string
  rf_password :: string
  rf_name :: string

record login_form =
  lf_email :: string
  lf_password :: string

record comment_form =
  cf_comment :: string

text \<open>
  The author field of the post form is assigned to the relationship \<open>post.author\<close>
  by \<open>edit_post\<close>, so its value is a user row or nothing.
\<close>

record create_post_form =
  pf_title :: string
  pf_subtitle :: string
  pf_img_url :: string
  pf_author :: "user option"
  pf_body :: string

datatype endpoint = Ep_get_all_posts | Ep_login | Ep_show_post int

text \<open>Exceptions that no view catches; the framework answers them with status 500.\<close>

datatype exn =
    IntegrityError string
  | UnmappedInstanceError
  | AttributeError
  | OverflowError

datatype response =
    Redirect endpoint
  | Render_template string
  | Abort nat
  | Unhandled exn
  | Automatic_options

text \<open>
  \<open>validate_on_submit\<close> of the form library: the request is a submission (its method
  is one of POST, PUT, PATCH, DELETE) and the validators accept the form.
\<close>

definition is_submitted :: "'f request \<Rightarrow> bool" where
  "is_submitted req = (req_method req \<in> {POST, PUT, PATCH, DELETE})"

definition validate_on_submit :: "('f \<Rightarrow> bool) \<Rightarrow> 'f request \<Rightarrow> bool" where
  "validate_on_submit validate req = (is_submitted req \<and> validate (form req))"

definition flash :: "string \<Rightarrow> state \<Rightarrow> state" where
  "flash msg s = s\<lparr>flashes := flashes s @ [msg]\<rparr>"

subsection \<open>Queries and the database session\<close>

text \<open>
  \<open>User.query.get(id)\<close>: the row with that primary key, or \<open>None\<close>. The only
  caller is the \<open>user_loader\<close>, with the id of the session cookie; the cookie is
  signed by the application, so the id is one that \<open>login_user\<close> stored, the key of
  a user row.
\<close>

definition get_user :: "state \<Rightarrow> int \<Rightarrow> user option" where
  "get_user s i = find (\<lambda>u. u_id u = i) (users s)"

text \<open>The post row with a given primary key, if the table has one.\<close>

definition find_blog_post :: "state \<Rightarrow> int \<Rightarrow> blog_post option" where
  "find_blog_post s i = find (\<lambda>p. bp_id p = i) (blog_posts s)"

text \<open>
  \<open>BlogPost.query.get(post_id)\<close> with a post id taken from the URL, which may be any
  number. The id is bound as a parameter of the query; the default database (SQLite)
  holds signed 64-bit integers, and binding an integer outside that range raises
  \<open>OverflowError\<close>. Otherwise the result is the row with that key, or \<open>None\<close>.
\<close>

definition sqlite_integer :: "int \<Rightarrow> bool" where
  "sqlite_integer i = (- (2 ^ 63) \<le> i \<and> i < 2 ^ 63)"

definition get_blog_post :: "state \<Rightarrow> int \<Rightarrow> exn + blog_post option" where
  "get_blog_post s i =
     (if sqlite_integer i then Inr (find_blog_post s i) else Inl OverflowError)"

text \<open>\<open>User.query.filter_by(email=e).first()\<close>.\<close>

definition first_by_email :: "state \<Rightarrow> string \<Rightarrow> user option" where
  "first_by_email s e = find (\<lambda>u. u_email u = e) (users s)"

text \<open>
  A new row gets the primary key the database assigns. With the default database URI
  (SQLite) that is 1 in an empty table and otherwise one more than the largest key of
  the table. (When the largest key is the largest 64-bit integer SQLite picks an unused
  key at random instead; the keys of this program start at 1 and grow by one, so that
  table is never met.)
\<close>

definition next_id :: "int list \<Rightarrow> int" where
  "next_id ids = (case ids of [] \<Rightarrow> 1 | i # is \<Rightarrow> fold max is i + 1)"

text \<open>
  \<open>db.session.add\<close> followed by \<open>db.session.commit\<close>. The columns \<open>users.email\<close>
  and \<open>blog_posts.title\<close> are declared \<open>unique=True\<close>: a commit that would store a
  second row with the same value raises the integrity error and stores nothing.
\<close>

definition add_user :: "user \<Rightarrow> state \<Rightarrow> exn + state" where
  "add_user new_user s =
     (if u_email new_user \<in> set (map u_email (users s))
      then Inl (IntegrityError ''users.email'')
      else Inr (s\<lparr>users := users s @ [new_user]\<rparr>))"

definition add_blog_post :: "blog_post \<Rightarrow> state \<Rightarrow> exn + state" where
  "add_blog_post new_post s =
     (if bp_title new_post \<in> set (map bp_title (blog_posts s))
      then Inl (IntegrityError ''blog_posts.title'')
      else Inr (s\<lparr>blog_posts := blog_posts s @ [new_post]\<rparr>))"

definition add_comment :: "comment \<Rightarrow> state \<Rightarrow> state" where
  "add_comment new_comment s = s\<lparr>comments := comments s @ [new_comment]\<rparr>"

text \<open>
  Committing attribute assignments made to a loaded post: the assigned columns are
  written to the row with the post's primary key (\<open>changes\<close> is the effect of the
  assignments on a row). The unique title is checked against the other rows.
\<close>

definition update_blog_post :: "blog_post \<Rightarrow> (blog_post \<Rightarrow> blog_post) \<Rightarrow> state \<Rightarrow> exn + state" where
  "update_blog_post post changes s =
     (if \<exists>q \<in> set (blog_posts s). bp_id q \<noteq> bp_id post \<and> bp_title q = bp_title (changes post)
      then Inl (IntegrityError ''blog_posts.title'')
      else Inr (s\<lparr>blog_posts :=
                   map (\<lambda>q. if bp_id q = bp_id post then changes q else q) (blog_posts s)\<rparr>))"

text \<open>
  \<open>db.session.delete(post)\<close> and commit. The relationship \<open>BlogPost.comments\<close>
  declares no cascade, so the ORM detaches the post's comments by setting their
  \<open>parent_post_id\<close> to NULL and deletes the post row.
\<close>

definition delete_blog_post :: "blog_post \<Rightarrow> state \<Rightarrow> state" where
  "delete_blog_post post s =
     s\<lparr>blog_posts := filter (\<lambda>q. bp_id q \<noteq> bp_id post) (blog_posts s),
       comments := map (\<lambda>c. if c_parent_post_id c = Some (bp_id post)
                              then c\<lparr>c_parent_post_id := None\<rparr> else c) (comments s)\<rparr>"

subsection \<open>The current user\<close>

datatype identity = AnonymousUser | LoggedIn user

text \<open>The \<open>user_loader\<close> callback.\<close>

definition load_user :: "state \<Rightarrow> int \<Rightarrow> user option" where
  "load_user s user_id = get_user s user_id"

text \<open>
  \<open>current_user\<close>: the user the session's id loads, the anonymous user when the
  session holds no id or the id loads nothing.
\<close>

definition current_user :: "state \<Rightarrow> identity" where
  "current_user s =
     (case session s of
        None \<Rightarrow> AnonymousUser
      | Some user_id \<Rightarrow>
          (case load_user s user_id of None \<Rightarrow> AnonymousUser | Some u \<Rightarrow> LoggedIn u))"

fun is_authenticated :: "identity \<Rightarrow> bool" where
  "is_authenticated AnonymousUser = False"
| "is_authenticated (LoggedIn u) = True"

definition login_user :: "user \<Rightarrow> state \<Rightarrow> state" where
  "login_user u s = s\<lparr>session := Some (u_id u)\<rparr>"

definition logout_user :: "state \<Rightarrow> state" where
  "logout_user s = s\<lparr>session := None\<rparr>"

text \<open>
  The decorator \<open>admin_only\<close>. The test \<open>not is_authenticated or id != 1\<close> reads the
  id only of an authenticated user.
\<close>

definition admin_only ::
  "('a \<Rightarrow> state \<Rightarrow> response \<times> state) \<Rightarrow> 'a \<Rightarrow> state \<Rightarrow> response \<times> state" where
  "admin_only function args s =
     (case current_user s of
        AnonymousUser \<Rightarrow> (Abort 403, s)
      | LoggedIn u \<Rightarrow> if u_id u \<noteq> 1 then (Abort 403, s) else function args s)"

subsection \<open>The view functions\<close>

definition get_all_posts :: "state \<Rightarrow> response \<times> state" where
  "get_all_posts s = (Render_template ''index.html'', s)"

definition register ::
  "(register_form \<Rightarrow> bool) \<Rightarrow> ('salt \<Rightarrow> string \<Rightarrow> string) \<Rightarrow> 'salt \<Rightarrow>
   register_form request \<Rightarrow> state \<Rightarrow> response \<times> state" where
  "register validate generate_password_hash salt req s =
     (if validate_on_submit validate req then
        let input_email = rf_email (form req) in
        (case first_by_email s input_email of
           Some found \<Rightarrow>
             (Redirect Ep_login,
              flash ''You've already signed up with that email, log in instead!'' s)
         | None \<Rightarrow>
             let hashed_salted_pwd = generate_password_hash salt (rf_password (form req));
                 new_user = \<lparr>u_id = next_id (map u_id (users s)),
                             u_email = rf_email (form req),
                             u_password = hashed_salted_pwd,
                             u_name = rf_name (form req)\<rparr>
             in (case add_user new_user s of
                   Inl e \<Rightarrow> (Unhandled e, s)
                 | Inr s' \<Rightarrow> (Redirect Ep_get_all_posts, login_user new_user s')))
      else (Render_template ''register.html'', s))"

definition login ::
  "(login_form \<Rightarrow> bool) \<Rightarrow> (string \<Rightarrow> string \<Rightarrow> bool) \<Rightarrow>
   login_form request \<Rightarrow> state \<Rightarrow> response \<times> state" where
  "login validate check_password_hash req s =
     (if validate_on_submit validate req then
        (case first_by_email s (lf_email (form req)) of
           None \<Rightarrow>
             (Render_template ''login.html'',
              flash ''That email does not exist, please try again.'' s)
         | Some found_user \<Rightarrow>
             if \<not> check_password_hash (u_password found_user) (lf_password (form req))
             then (Render_template ''login.html'',
                   flash ''Incorrect password, please try again.'' s)
             else (Redirect Ep_get_all_posts, login_user found_user s))
      else (Render_template ''login.html'', s))"

definition logout :: "state \<Rightarrow> response \<times> state" where
  "logout s = (Redirect Ep_get_all_posts, logout_user s)"

text \<open>
  \<open>show_post\<close>. The post is looked up first, before the form and the user are
  examined, so a lookup that raises ends the request. The new comment is built with
  \<open>parent_post_id=post_id\<close> and \<open>parent_post=requested_post\<close>; at the commit the ORM
  writes the foreign key from the relationship attribute that was set, the id of the
  requested post, and NULL when the requested post is \<open>None\<close>.
\<close>

definition show_post ::
  "(comment_form \<Rightarrow> bool) \<Rightarrow> comment_form request \<Rightarrow> int \<Rightarrow> state \<Rightarrow> response \<times> state" where
  "show_post validate req post_id s =
     (case get_blog_post s post_id of
        Inl e \<Rightarrow> (Unhandled e, s)
      | Inr requested_post \<Rightarrow>
          if validate_on_submit validate req then
            (case current_user s of
               AnonymousUser \<Rightarrow>
                 (Redirect Ep_login, flash ''You need to log in or register to comment.'' s)
             | LoggedIn u \<Rightarrow>
                 let new_comment = \<lparr>c_id = next_id (map c_id (comments s)),
                                    c_text = cf_comment (form req),
                                    c_comment_author_id = Some (u_id u),
                                    c_parent_post_id = map_option bp_id requested_post\<rparr>
                 in (Render_template ''post.html'', add_comment new_comment s))
          else (Render_template ''post.html'', s))"

text \<open>
  The three views behind \<open>admin_only\<close>; each is the decorator applied to the function
  body. In \<open>add_new_post\<close> the author is the current user, whom the decorator has found
  authenticated; the ORM accepts only a user row as author.
\<close>

definition add_new_post_body ::
  "(create_post_form \<Rightarrow> bool) \<Rightarrow> string \<Rightarrow> create_post_form request \<Rightarrow> state \<Rightarrow>
   response \<times> state" where
  "add_new_post_body validate today req s =
     (if validate_on_submit validate req then
        (case current_user s of
           AnonymousUser \<Rightarrow> (Unhandled AttributeError, s)
         | LoggedIn u \<Rightarrow>
             let new_post = \<lparr>bp_id = next_id (map bp_id (blog_posts s)),
                             bp_author_id = Some (u_id u),
                             bp_title = pf_title (form req),
                             bp_subtitle = pf_subtitle (form req),
                             bp_date = today,
                             bp_body = pf_body (form req),
                             bp_img_url = pf_img_url (form req)\<rparr>
             in (case add_blog_post new_post s of
                   Inl e \<Rightarrow> (Unhandled e, s)
                 | Inr s' \<Rightarrow> (Redirect Ep_get_all_posts, s')))
      else (Render_template ''make-post.html'', s))"

definition add_new_post ::
  "(create_post_form \<Rightarrow> bool) \<Rightarrow> string \<Rightarrow> create_post_form request \<Rightarrow> state \<Rightarrow>
   response \<times> state" where
  "add_new_post validate today = admin_only (add_new_post_body validate today)"

text \<open>
  \<open>edit_post\<close> reads the attributes of the looked-up post without testing it: for a
  missing post the first read raises.
\<close>

definition edit_post_body ::
  "(create_post_form \<Rightarrow> bool) \<Rightarrow> create_post_form request \<times> int \<Rightarrow> state \<Rightarrow>
   response \<times> state" where
  "edit_post_body validate args s =
     (let req = fst args; post_id = snd args in
      case get_blog_post s post_id of
        Inl e \<Rightarrow> (Unhandled e, s)
      | Inr None \<Rightarrow> (Unhandled AttributeError, s)
      | Inr (Some post) \<Rightarrow>
          if validate_on_submit validate req then
            let changes = (\<lambda>q. q\<lparr>bp_title := pf_title (form req),
                                   bp_subtitle := pf_subtitle (form req),
                                   bp_img_url := pf_img_url (form req),
                                   bp_author_id := map_option u_id (pf_author (form req)),
                                   bp_body := pf_body (form req)\<rparr>)
            in (case update_blog_post post changes s of
                  Inl e \<Rightarrow> (Unhandled e, s)
                | Inr s' \<Rightarrow> (Redirect (Ep_show_post (bp_id post)), s'))
          else (Render_template ''make-post.html'', s))"

definition edit_post ::
  "(create_post_form \<Rightarrow> bool) \<Rightarrow> create_post_form request \<Rightarrow> int \<Rightarrow> state \<Rightarrow>
   response \<times> state" where
  "edit_post validate req post_id = admin_only (edit_post_body validate) (req, post_id)"

text \<open>\<open>delete_post\<close>: deleting \<open>None\<close> raises in the ORM session.\<close>

definition delete_post_body :: "int \<Rightarrow> state \<Rightarrow> response \<times> state" where
  "delete_post_body post_id s =
     (case get_blog_post s post_id of
        Inl e \<Rightarrow> (Unhandled e, s)
      | Inr None \<Rightarrow> (Unhandled UnmappedInstanceError, s)
      | Inr (Some post_to_delete) \<Rightarrow>
          (Redirect Ep_get_all_posts, delete_blog_post post_to_delete s))"

definition delete_post :: "int \<Rightarrow> state \<Rightarrow> response \<times> state" where
  "delete_post = admin_only delete_post_body"

definition about :: "state \<Rightarrow> response \<times> state" where
  "about s = (Render_template ''about.html'', s)"

definition contact :: "state \<Rightarrow> response \<times> state" where
  "contact s = (Render_template ''contact.html'', s)"

text \<open>
  The methods with which a request reaches the view of a route: those the decorator
  lists, GET alone when it lists none, and HEAD, which the framework adds wherever GET
  is accepted. (OPTIONS is accepted on every route too, but the framework answers it
  itself.)
\<close>

datatype route =
    R_get_all_posts | R_register | R_login | R_logout | R_show_post
  | R_about | R_contact | R_add_new_post | R_edit_post | R_delete_post

fun route_methods :: "route \<Rightarrow> http_method list" where
  "route_methods R_register = [GET, POST, HEAD]"
| "route_methods R_login = [GET, POST, HEAD]"
| "route_methods R_show_post = [GET, POST, HEAD]"
| "route_methods R_add_new_post = [GET, POST, HEAD]"
| "route_methods r = [GET, HEAD]"

subsection \<open>Requests in sequence\<close>

text \<open>
  The parameters of the views, collected: the validators of the four form classes and
  the two functions of the hashing library.
\<close>

record env =
  validate_register :: "register_form \<Rightarrow> bool"
  validate_login :: "login_form \<Rightarrow> bool"
  validate_comment :: "comment_form \<Rightarrow> bool"
  validate_post :: "create_post_form \<Rightarrow> bool"
  generate_password_hash :: "string \<Rightarrow> string \<Rightarrow> string"
  check_password_hash :: "string \<Rightarrow> string \<Rightarrow> bool"

text \<open>
  What happens to the application, one event at a time: a request to one of the routes
  (with the salt drawn or the date of the day where the view needs one), or a change of
  the client, which puts that client's session in place of the current one. A client's
  session may hold any user id or none; the sessions the application hands out are among
  them.
\<close>

datatype event =
    Client "int option"
  | Req_get_all_posts http_method
  | Req_register "register_form request" string
  | Req_login "login_form request"
  | Req_logout http_method
  | Req_show_post "comment_form request" int
  | Req_about http_method
  | Req_contact http_method
  | Req_add_new_post "create_post_form request" string
  | Req_edit_post "create_post_form request" int
  | Req_delete_post http_method int

text \<open>
  A request reaches the view of its route only with a method of \<open>route_methods\<close>.
  The framework answers OPTIONS itself and any other method with 405; in both cases
  the view is not called and nothing changes.
\<close>

definition routed ::
  "route \<Rightarrow> http_method \<Rightarrow> (state \<Rightarrow> response \<times> state) \<Rightarrow> state \<Rightarrow> response \<times> state" where
  "routed r m view s =
     (if m \<in> set (route_methods r) then view s
      else if m = OPTIONS then (Automatic_options, s)
      else (Abort 405, s))"

text \<open>
  The URL converter \<open><int:post_id>\<close> matches digits only: a URL with a negative
  number matches no route and is answered with 404 before any view is called.
\<close>

definition int_converter ::
  "int \<Rightarrow> (int \<Rightarrow> state \<Rightarrow> response \<times> state) \<Rightarrow> state \<Rightarrow> response \<times> state" where
  "int_converter post_id view s = (if post_id < 0 then (Abort 404, s) else view post_id s)"

fun step :: "env \<Rightarrow> event \<Rightarrow> state \<Rightarrow> state" where
  "step env (Client c) s = s\<lparr>session := c\<rparr>"
| "step env (Req_get_all_posts m) s = snd (routed R_get_all_posts m get_all_posts s)"
| "step env (Req_register req salt) s =
     snd (routed R_register (req_method req)
            (register (validate_register env) (generate_password_hash env) salt req) s)"
| "step env (Req_login req) s =
     snd (routed R_login (req_method req)
            (login (validate_login env) (check_password_hash env) req) s)"
| "step env (Req_logout m) s = snd (routed R_logout m logout s)"
| "step env (Req_show_post req post_id) s =
     snd (int_converter post_id
            (\<lambda>i. routed R_show_post (req_method req) (show_post (validate_comment env) req i)) s)"
| "step env (Req_about m) s = snd (routed R_about m about s)"
| "step env (Req_contact m) s = snd (routed R_contact m contact s)"
| "step env (Req_add_new_post req today) s =
     snd (routed R_add_new_post (req_method req) (add_new_post (validate_post env) today req) s)"
| "step env (Req_edit_post req post_id) s =
     snd (int_converter post_id
            (\<lambda>i. routed R_edit_post (req_method req) (edit_post (validate_post env) req i)) s)"
| "step env (Req_delete_post m post_id) s =
     snd (int_converter post_id (\<lambda>i. routed R_delete_post m (delete_post i)) s)"

text \<open>The state after a sequence of events.\<close>

fun run :: "env \<Rightarrow> event list \<Rightarrow> state \<Rightarrow> state" where
  "run env [] s = s"
| "run env (e # es) s = run env es (step env e s)"

subsection \<open>Notions used to state the properties\<close>

text \<open>
  The caller passes the test of \<open>admin_only\<close>: the current user is authenticated and
  has id 1.
\<close>

definition is_admin :: "state \<Rightarrow> bool" where
  "is_admin s = (case current_user s of AnonymousUser \<Rightarrow> False | LoggedIn u \<Rightarrow> u_id u = 1)"

text \<open>The user row that \<open>register\<close> builds from a form in a state.\<close>

definition registered_user ::
  "('salt \<Rightarrow> string \<Rightarrow> string) \<Rightarrow> 'salt \<Rightarrow> register_form \<Rightarrow> state \<Rightarrow> user" where
  "registered_user gen salt f s =
     \<lparr>u_id = next_id (map u_id (users s)), u_email = rf_email f,
      u_password = gen salt (rf_password f), u_name = rf_name f\<rparr>"

text \<open>
  Referential integrity: every comment's author id and parent post id, and every
  post's author id, is the key of a stored row (NULL is the key of none).
\<close>

definition valid_user_ref :: "state \<Rightarrow> int option \<Rightarrow> bool" where
  "valid_user_ref s r = (case r of None \<Rightarrow> False | Some i \<Rightarrow> get_user s i \<noteq> None)"

definition valid_post_ref :: "state \<Rightarrow> int option \<Rightarrow> bool" where
  "valid_post_ref s r = (case r of None \<Rightarrow> False | Some i \<Rightarrow> find_blog_post s i \<noteq> None)"

definition referential_integrity :: "state \<Rightarrow> bool" where
  "referential_integrity s =
     (list_all (\<lambda>c. valid_user_ref s (c_comment_author_id c) \<and> valid_post_ref s (c_parent_post_id c))
        (comments s)
      \<and> list_all (\<lambda>p. valid_user_ref s (bp_author_id p)) (blog_posts s))"

text \<open>
  The weaker integrity the program keeps: a comment's parent post id may be NULL, and
  when it is not it is the key of a stored post.
\<close>

definition valid_or_null_post_ref :: "state \<Rightarrow> int option \<Rightarrow> bool" where
  "valid_or_null_post_ref s r =
     (case r of None \<Rightarrow> True | Some i \<Rightarrow> find_blog_post s i \<noteq> None)"

definition integrity_up_to_orphans :: "state \<Rightarrow> bool" where
  "integrity_up_to_orphans s =
     (list_all (\<lambda>c. valid_user_ref s (c_comment_author_id c)
                  \<and> valid_or_null_post_ref s (c_parent_post_id c)) (comments s)
      \<and> list_all (\<lambda>p. valid_user_ref s (bp_author_id p)) (blog_posts s))"

subsection \<open>Sample data\<close>

definition alice :: user where
  "alice = \<lparr>u_id = 1, u_email = ''alice@example.com'', u_password = ''h1'', u_name = ''Alice''\<rparr>"

definition bob :: user where
  "bob = \<lparr>u_id = 2, u_email = ''bob@example.com'', u_password = ''h2'', u_name = ''Bob''\<rparr>"

definition hello_post :: blog_post where
  "hello_post = \<lparr>bp_id = 1, bp_author_id = Some 1, bp_title = ''Hello'', bp_subtitle = ''First'',
     bp_date = ''August 01, 2021'', bp_body = ''Text'', bp_img_url = ''http://img''\<rparr>"

definition sample_db :: state where
  "sample_db = \<lparr>users = [alice, bob], blog_posts = [hello_post], comments = [],
     session = None, flashes = []\<rparr>"

definition post_form :: create_post_form where
  "post_form = \<lparr>pf_title = ''Hello'', pf_subtitle = ''Again'', pf_img_url = ''http://img2'',
     pf_author = Some alice, pf_body = ''More''\<rparr>"

definition alice_form :: "register_form request" where
  "alice_form = \<lparr>req_method = POST, form = \<lparr>rf_email = ''alice@example.com'',
     rf_password = ''secret'', rf_name = ''Alice Two''\<rparr>\<rparr>"

definition carol_form :: "register_form request" where
  "carol_form = \<lparr>req_method = POST, form = \<lparr>rf_email = ''carol@example.com'',
     rf_password = ''pw'', rf_name = ''Carol''\<rparr>\<rparr>"

text \<open>A stand-in for the hashing library: the salt, a separator and the password.\<close>

definition toy_hash :: "string \<Rightarrow> string \<Rightarrow> string" where
  "toy_hash salt pw = salt @ ''$'' @ pw"

definition toy_check :: "string \<Rightarrow> string \<Rightarrow> bool" where
  "toy_check h pw = (drop (length h - length pw) h = pw)"

definition carol_login :: "login_form request" where
  "carol_login = \<lparr>req_method = POST,
     form = \<lparr>lf_email = ''carol@example.com'', lf_password = ''pw''\<rparr>\<rparr>"

definition nice_comment :: "comment_form request" where
  "nice_comment = \<lparr>req_method = POST, form = \<lparr>cf_comment = ''nice post''\<rparr>\<rparr>"

text \<open>
  Three states the program reaches from the empty database: after a first registration
  (the new user gets id 1 and is logged in), after that user has created a post, and
  after a comment on that post.
\<close>

definition db_registered :: state where
  "db_registered = snd (register (\<lambda>f. True) toy_hash ''salt'' alice_form empty_db)"

definition db_posted :: state where
  "db_posted = snd (add_new_post (\<lambda>f. True) ''November 03, 2026''
                      \<lparr>req_method = POST, form = post_form\<rparr> db_registered)"

definition db_commented :: state where
  "db_commented = snd (show_post (\<lambda>f. True) nice_comment 1 db_posted)"

definition sample_env :: env where
  "sample_env = \<lparr>validate_register = (\<lambda>f. True), validate_login = (\<lambda>f. True),
     validate_comment = (\<lambda>f. True), validate_post = (\<lambda>f. True),
     generate_password_hash = toy_hash, check_password_hash = toy_check\<rparr>"

text \<open>
  A registration, a post by the registered user (who has id 1) and a comment on it.
\<close>

definition blog_history :: "event list" where
  "blog_history =
     [Req_register alice_form ''salt'',
      Req_add_new_post \<lparr>req_method = POST, form = post_form\<rparr> ''November 03, 2026'',
      Req_show_post nice_comment 1]"

lemmas sample_defs = sample_db_def alice_def bob_def hello_post_def post_form_def

section \<open>Properties\<close>

subsection \<open>Auxiliary facts\<close>

lemma is_admin_iff:
  "is_admin s \<longleftrightarrow> (\<exists>u. current_user s = LoggedIn u \<and> u_id u = 1)"
  by (simp add: is_admin_def split: identity.splits)

lemma admin_only_not_admin: "\<not> is_admin s \<Longrightarrow> admin_only function args s = (Abort 403, s)"
  by (simp add: admin_only_def is_admin_def split: identity.splits)

lemma admin_only_admin: "is_admin s \<Longrightarrow> admin_only function args s = function args s"
  by (simp add: admin_only_def is_admin_def split: identity.splits)

lemma anonymous_not_admin: "current_user s = AnonymousUser \<Longrightarrow> \<not> is_admin s"
  by (simp add: is_admin_def)

lemma vos_True: "validate_on_submit (\<lambda>f. True) \<lparr>req_method = POST, form = f\<rparr>"
  by (simp add: validate_on_submit_def is_submitted_def)

lemma sqlite_integer_small: "sqlite_integer 1" "sqlite_integer 7"
  by (simp_all add: sqlite_integer_def)

lemma get_blog_post_in_range:
  "sqlite_integer i \<Longrightarrow> get_blog_post s i = Inr (find_blog_post s i)"
  by (simp add: get_blog_post_def)

lemma get_blog_post_out_of_range:
  "\<not> sqlite_integer i \<Longrightarrow> get_blog_post s i = Inl OverflowError"
  by (simp add: get_blog_post_def)

lemma get_blog_post_Inr:
  "get_blog_post s i = Inr r \<longleftrightarrow> sqlite_integer i \<and> r = find_blog_post s i"
  by (auto simp: get_blog_post_def)

lemma cu_bob: "current_user (sample_db\<lparr>session := Some 2\<rparr>) = LoggedIn bob"
  by (simp add: current_user_def load_user_def get_user_def sample_defs)

lemma first_by_email_None: "first_by_email s e = None \<longleftrightarrow> e \<notin> set (map u_email (users s))"
  by (auto simp: first_by_email_def find_None_iff)

lemma first_by_email_Some: "first_by_email s e = Some u \<Longrightarrow> u \<in> set (users s) \<and> u_email u = e"
  by (auto simp: first_by_email_def find_Some_iff)

lemma register_existing:
  assumes "validate_on_submit validate req" "rf_email (form req) \<in> set (map u_email (users s))"
  shows "register validate gen salt req s =
    (Redirect Ep_login, flash ''You've already signed up with that email, log in instead!'' s)"
proof -
  from assms(2) have "first_by_email s (rf_email (form req)) \<noteq> None"
    by (simp add: first_by_email_None)
  then obtain u where "first_by_email s (rf_email (form req)) = Some u" by blast
  with assms(1) show ?thesis by (simp add: register_def)
qed

lemma register_fresh:
  assumes "validate_on_submit validate req" "rf_email (form req) \<notin> set (map u_email (users s))"
  shows "register validate gen salt req s =
    (Redirect Ep_get_all_posts,
     s\<lparr>users := users s @ [registered_user gen salt (form req) s],
       session := Some (next_id (map u_id (users s)))\<rparr>)"
proof -
  from assms(2) have "first_by_email s (rf_email (form req)) = None"
    by (simp add: first_by_email_None)
  with assms show ?thesis
    by (simp add: register_def add_user_def login_user_def registered_user_def Let_def)
qed

subsection \<open>The admin gate\<close>

text \<open>
  Claim C1. When the caller is not the administrator (nobody is logged in, or the
  logged-in user's id is not 1), each of the three admin-only views \<open>add_new_post\<close>,
  \<open>edit_post\<close> and \<open>delete_post\<close> answers with abort 403 and returns the state it
  was given: no table is touched, whatever the request and the post id.
\<close>

theorem admin_routes_forbidden:
  assumes "\<not> is_admin s"
  shows "add_new_post validate today req s = (Abort 403, s)
       \<and> edit_post validate' req' post_id s = (Abort 403, s)
       \<and> delete_post post_id' s = (Abort 403, s)"
  using assms by (simp add: add_new_post_def edit_post_def delete_post_def admin_only_not_admin)

theorem admin_routes_forbidden_witness:
  "\<not> is_admin (sample_db\<lparr>session := Some 2\<rparr>)
   \<and> add_new_post (\<lambda>f. True) ''November 03, 2026'' \<lparr>req_method = POST, form = post_form\<rparr>
        (sample_db\<lparr>session := Some 2\<rparr>) = (Abort 403, sample_db\<lparr>session := Some 2\<rparr>)
   \<and> edit_post (\<lambda>f. True) \<lparr>req_method = POST, form = post_form\<rparr> 1
        (sample_db\<lparr>session := Some 2\<rparr>) = (Abort 403, sample_db\<lparr>session := Some 2\<rparr>)
   \<and> delete_post 1 (sample_db\<lparr>session := Some 2\<rparr>) = (Abort 403, sample_db\<lparr>session := Some 2\<rparr>)
   \<and> current_user sample_db = AnonymousUser
   \<and> add_new_post (\<lambda>f. True) ''November 03, 2026'' \<lparr>req_method = POST, form = post_form\<rparr>
        sample_db = (Abort 403, sample_db)
   \<and> edit_post (\<lambda>f. True) \<lparr>req_method = POST, form = post_form\<rparr> 1 sample_db
        = (Abort 403, sample_db)
   \<and> delete_post 1 sample_db = (Abort 403, sample_db)"
proof -
  have h: "\<not> is_admin (sample_db\<lparr>session := Some 2\<rparr>)"
    by (simp add: is_admin_def cu_bob) (simp add: bob_def)
  have a: "current_user sample_db = AnonymousUser"
    by (simp add: current_user_def sample_db_def)
  have h': "\<not> is_admin sample_db"
    by (rule anonymous_not_admin [OF a])
  show ?thesis
    using h a
      admin_routes_forbidden [OF h, of "\<lambda>f. True" "''November 03, 2026''"
        "\<lparr>req_method = POST, form = post_form\<rparr>" "\<lambda>f. True"
        "\<lparr>req_method = POST, form = post_form\<rparr>" 1 1]
      admin_routes_forbidden [OF h', of "\<lambda>f. True" "''November 03, 2026''"
        "\<lparr>req_method = POST, form = post_form\<rparr>" "\<lambda>f. True"
        "\<lparr>req_method = POST, form = post_form\<rparr>" 1 1]
    by simp
qed

subsection \<open>Registration\<close>

text \<open>
  Claim C2. For a submitted registration form that validates: when the email already
  belongs to a stored user, \<open>register\<close> redirects to the login page and the user rows
  are unchanged; when the email is fresh, \<open>register\<close> redirects to the post listing
  and the user rows are the old ones followed by exactly one new row, and any further
  valid registration with the same email then redirects to login and adds no row.
\<close>

theorem register_duplicate_email:
  assumes "validate_on_submit validate req"
  shows "(rf_email (form req) \<in> set (map u_email (users s)) \<longrightarrow>
            fst (register validate gen salt req s) = Redirect Ep_login
          \<and> users (snd (register validate gen salt req s)) = users s)
       \<and> (rf_email (form req) \<notin> set (map u_email (users s)) \<longrightarrow>
            fst (register validate gen salt req s) = Redirect Ep_get_all_posts
          \<and> users (snd (register validate gen salt req s))
              = users s @ [registered_user gen salt (form req) s]
          \<and> length (users (snd (register validate gen salt req s))) = length (users s) + 1
          \<and> (validate_on_submit validate2 req2 \<and> rf_email (form req2) = rf_email (form req) \<longrightarrow>
                  fst (register validate2 gen2 salt2 req2 (snd (register validate gen salt req s)))
                    = Redirect Ep_login
                \<and> users (snd (register validate2 gen2 salt2 req2 (snd (register validate gen salt req s))))
                    = users (snd (register validate gen salt req s))))"
proof (intro conjI impI)
  assume ex: "rf_email (form req) \<in> set (map u_email (users s))"
  show "fst (register validate gen salt req s) = Redirect Ep_login"
    by (simp add: register_existing [OF assms ex])
  show "users (snd (register validate gen salt req s)) = users s"
    by (simp add: register_existing [OF assms ex] flash_def)
next
  assume fr: "rf_email (form req) \<notin> set (map u_email (users s))"
  note r = register_fresh [OF assms fr, of gen salt]
  show "fst (register validate gen salt req s) = Redirect Ep_get_all_posts"
    by (simp add: r)
  show u: "users (snd (register validate gen salt req s))
              = users s @ [registered_user gen salt (form req) s]"
    by (simp add: r)
  show "length (users (snd (register validate gen salt req s))) = length (users s) + 1"
    by (simp add: r)
  assume a2: "validate_on_submit validate2 req2 \<and> rf_email (form req2) = rf_email (form req)"
  have ex2: "rf_email (form req2) \<in> set (map u_email (users (snd (register validate gen salt req s))))"
    using a2 by (simp add: u registered_user_def)
  from a2 have v2: "validate_on_submit validate2 req2" by simp
  show "fst (register validate2 gen2 salt2 req2 (snd (register validate gen salt req s)))
                    = Redirect Ep_login"
    by (simp add: register_existing [OF v2 ex2])
  show "users (snd (register validate2 gen2 salt2 req2 (snd (register validate gen salt req s))))
                    = users (snd (register validate gen salt req s))"
    by (simp add: register_existing [OF v2 ex2] flash_def)
qed

theorem register_duplicate_email_witness:
  "validate_on_submit (\<lambda>f. True) alice_form
   \<and> rf_email (form alice_form) \<in> set (map u_email (users sample_db))
   \<and> fst (register (\<lambda>f. True) toy_hash ''salt'' alice_form sample_db) = Redirect Ep_login
   \<and> users (snd (register (\<lambda>f. True) toy_hash ''salt'' alice_form sample_db)) = users sample_db
   \<and> validate_on_submit (\<lambda>f. True) carol_form
   \<and> rf_email (form carol_form) \<notin> set (map u_email (users sample_db))
   \<and> fst (register (\<lambda>f. True) toy_hash ''salt'' carol_form sample_db) = Redirect Ep_get_all_posts
   \<and> length (users (snd (register (\<lambda>f. True) toy_hash ''salt'' carol_form sample_db))) = 3
   \<and> fst (register (\<lambda>f. True) toy_hash ''pepper'' carol_form
            (snd (register (\<lambda>f. True) toy_hash ''salt'' carol_form sample_db))) = Redirect Ep_login
   \<and> length (users (snd (register (\<lambda>f. True) toy_hash ''pepper'' carol_form
            (snd (register (\<lambda>f. True) toy_hash ''salt'' carol_form sample_db))))) = 3"
proof -
  have v1: "validate_on_submit (\<lambda>f. True) alice_form"
    by (simp add: alice_form_def vos_True)
  have v2: "validate_on_submit (\<lambda>f. True) carol_form"
    by (simp add: carol_form_def vos_True)
  have e1: "rf_email (form alice_form) \<in> set (map u_email (users sample_db))"
    by (simp add: alice_form_def sample_defs)
  have e2: "rf_email (form carol_form) \<notin> set (map u_email (users sample_db))"
    by (simp add: carol_form_def sample_defs)
  have l: "length (users sample_db) = 2"
    by (simp add: sample_db_def)
  show ?thesis
    using v1 v2 e1 e2 l
      register_duplicate_email [OF v1, of sample_db toy_hash "''salt''"]
      register_duplicate_email [OF v2, of sample_db toy_hash "''salt''" "\<lambda>f. True" carol_form
        toy_hash "''pepper''"]
    by simp
qed

subsection \<open>Logging out\<close>

text \<open>
  Claim C10. \<open>logout\<close> has no failing branch: for every state, logged in or not, it
  redirects to the post listing and changes nothing but the session, which afterwards
  holds no user; the three tables are unchanged, and logging out again gives the same
  response and the same state.
\<close>

theorem logout_always_succeeds:
  "logout s = (Redirect Ep_get_all_posts, s\<lparr>session := None\<rparr>)
   \<and> current_user (snd (logout s)) = AnonymousUser
   \<and> users (snd (logout s)) = users s
   \<and> blog_posts (snd (logout s)) = blog_posts s
   \<and> comments (snd (logout s)) = comments s
   \<and> logout (snd (logout s)) = logout s"
  by (simp add: logout_def logout_user_def current_user_def)

subsection \<open>Logging in\<close>

lemma find_distinct_email:
  "distinct (map u_email us) \<Longrightarrow> u \<in> set us \<Longrightarrow> find (\<lambda>v. u_email v = u_email u) us = Some u"
  by (induction us) (auto simp: image_iff)

lemma first_by_email_distinct:
  assumes "distinct (map u_email (users s))"
  shows "first_by_email s e = Some u \<longleftrightarrow> u \<in> set (users s) \<and> u_email u = e"
  using assms find_distinct_email [of "users s" u] first_by_email_Some [of s e u]
  by (auto simp: first_by_email_def)

lemma login_known:
  assumes "validate_on_submit validate req" "first_by_email s (lf_email (form req)) = Some u"
  shows "login validate check req s =
    (if check (u_password u) (lf_password (form req))
     then (Redirect Ep_get_all_posts, s\<lparr>session := Some (u_id u)\<rparr>)
     else (Render_template ''login.html'', flash ''Incorrect password, please try again.'' s))"
  using assms by (simp add: login_def login_user_def)

lemma login_unknown:
  assumes "validate_on_submit validate req" "first_by_email s (lf_email (form req)) = None"
  shows "login validate check req s =
    (Render_template ''login.html'', flash ''That email does not exist, please try again.'' s)"
  using assms by (simp add: login_def)

lemma find_append_None: "find P xs = None \<Longrightarrow> find P (xs @ ys) = find P ys"
  by (induction xs) (auto split: if_splits)

lemma first_by_email_registered:
  assumes "e \<notin> set (map u_email (users s))" "u_email u = e"
  shows "first_by_email (s\<lparr>users := users s @ [u], session := x\<rparr>) e = Some u"
proof -
  from assms(1) have "find (\<lambda>v. u_email v = e) (users s) = None"
    by (auto simp: find_None_iff)
  with assms(2) show ?thesis
    by (simp add: first_by_email_def find_append_None)
qed

text \<open>
  Claim C3. For a submitted login form that validates, \<open>login\<close> succeeds (redirects to
  the post listing, with the session holding the found user's id) if and only if the
  lookup by email finds a user and \<open>check_password_hash\<close> accepts the password against
  that user's stored hash; otherwise it renders the login page again and the session is
  unchanged. With unique emails the found user is the stored user with that email. In
  particular, after a successful registration a login with the same email and password
  succeeds, provided \<open>check_password_hash\<close> accepts the hash that
  \<open>generate_password_hash\<close> produced for that password.
\<close>

theorem login_succeeds_iff:
  assumes "validate_on_submit validate req"
  shows "(fst (login validate check req s) = Redirect Ep_get_all_posts \<longleftrightarrow>
            (\<exists>u. first_by_email s (lf_email (form req)) = Some u
                 \<and> check (u_password u) (lf_password (form req))))
       \<and> (first_by_email s (lf_email (form req)) = Some u
            \<and> check (u_password u) (lf_password (form req)) \<longrightarrow>
              login validate check req s = (Redirect Ep_get_all_posts, s\<lparr>session := Some (u_id u)\<rparr>))
       \<and> (fst (login validate check req s) \<noteq> Redirect Ep_get_all_posts \<longrightarrow>
              fst (login validate check req s) = Render_template ''login.html''
            \<and> session (snd (login validate check req s)) = session s)
       \<and> (distinct (map u_email (users s)) \<longrightarrow>
            (fst (login validate check req s) = Redirect Ep_get_all_posts \<longleftrightarrow>
               (\<exists>u \<in> set (users s). u_email u = lf_email (form req)
                    \<and> check (u_password u) (lf_password (form req)))))
       \<and> (validate_on_submit rvalidate rreq
            \<and> rf_email (form rreq) \<notin> set (map u_email (users s0))
            \<and> check (gen salt (rf_password (form rreq))) (rf_password (form rreq))
            \<and> lf_email (form req) = rf_email (form rreq)
            \<and> lf_password (form req) = rf_password (form rreq) \<longrightarrow>
              fst (login validate check req (snd (register rvalidate gen salt rreq s0)))
                = Redirect Ep_get_all_posts)"
proof (intro conjI impI)
  show iff: "fst (login validate check req s) = Redirect Ep_get_all_posts \<longleftrightarrow>
            (\<exists>u. first_by_email s (lf_email (form req)) = Some u
                 \<and> check (u_password u) (lf_password (form req)))"
  proof (cases "first_by_email s (lf_email (form req))")
    case None
    then show ?thesis by (simp add: login_unknown [OF assms None])
  next
    case (Some v)
    then show ?thesis by (simp add: login_known [OF assms Some])
  qed
  show "fst (login validate check req s) = Redirect Ep_get_all_posts \<longleftrightarrow>
               (\<exists>u \<in> set (users s). u_email u = lf_email (form req)
                    \<and> check (u_password u) (lf_password (form req)))"
    if "distinct (map u_email (users s))"
    using iff first_by_email_distinct [OF that] by auto
next
  assume "first_by_email s (lf_email (form req)) = Some u
            \<and> check (u_password u) (lf_password (form req))"
  then show "login validate check req s = (Redirect Ep_get_all_posts, s\<lparr>session := Some (u_id u)\<rparr>)"
    using login_known [OF assms, of s u check] by simp
next
  assume ne: "fst (login validate check req s) \<noteq> Redirect Ep_get_all_posts"
  show "fst (login validate check req s) = Render_template ''login.html''"
    using ne assms by (auto simp: login_def split: option.splits if_splits)
  show "session (snd (login validate check req s)) = session s"
    using ne assms by (auto simp: login_def flash_def split: option.splits if_splits)
next
  assume a: "validate_on_submit rvalidate rreq
            \<and> rf_email (form rreq) \<notin> set (map u_email (users s0))
            \<and> check (gen salt (rf_password (form rreq))) (rf_password (form rreq))
            \<and> lf_email (form req) = rf_email (form rreq)
            \<and> lf_password (form req) = rf_password (form rreq)"
  then have rv: "validate_on_submit rvalidate rreq"
    and fr: "rf_email (form rreq) \<notin> set (map u_email (users s0))"
    by simp_all
  have r: "register rvalidate gen salt rreq s0 =
    (Redirect Ep_get_all_posts,
     s0\<lparr>users := users s0 @ [registered_user gen salt (form rreq) s0],
        session := Some (next_id (map u_id (users s0)))\<rparr>)"
    by (rule register_fresh [OF rv fr])
  have f: "first_by_email (snd (register rvalidate gen salt rreq s0)) (lf_email (form req))
            = Some (registered_user gen salt (form rreq) s0)"
    unfolding r snd_conv
  proof (rule first_by_email_registered)
    show "lf_email (form req) \<notin> set (map u_email (users s0))"
      using a by simp
    show "u_email (registered_user gen salt (form rreq) s0) = lf_email (form req)"
      using a by (simp add: registered_user_def)
  qed
  show "fst (login validate check req (snd (register rvalidate gen salt rreq s0)))
                = Redirect Ep_get_all_posts"
    using a by (simp add: login_known [OF assms f] registered_user_def)
qed

theorem login_succeeds_iff_witness:
  "validate_on_submit (\<lambda>f. True) carol_login
   \<and> validate_on_submit (\<lambda>f. True) carol_form
   \<and> rf_email (form carol_form) \<notin> set (map u_email (users sample_db))
   \<and> toy_check (toy_hash ''salt'' (rf_password (form carol_form))) (rf_password (form carol_form))
   \<and> fst (login (\<lambda>f. True) toy_check carol_login
            (snd (register (\<lambda>f. True) toy_hash ''salt'' carol_form sample_db)))
        = Redirect Ep_get_all_posts
   \<and> first_by_email sample_db (lf_email (form carol_login)) = None
   \<and> fst (login (\<lambda>f. True) toy_check carol_login sample_db) = Render_template ''login.html''"
proof -
  have v1: "validate_on_submit (\<lambda>f. True) carol_login"
    by (simp add: carol_login_def vos_True)
  have v2: "validate_on_submit (\<lambda>f. True) carol_form"
    by (simp add: carol_form_def vos_True)
  have e: "rf_email (form carol_form) \<notin> set (map u_email (users sample_db))"
    by (simp add: carol_form_def sample_defs)
  have c: "toy_check (toy_hash ''salt'' (rf_password (form carol_form))) (rf_password (form carol_form))"
    by (simp add: toy_check_def toy_hash_def carol_form_def)
  have m: "lf_email (form carol_login) = rf_email (form carol_form)"
    "lf_password (form carol_login) = rf_password (form carol_form)"
    by (simp_all add: carol_login_def carol_form_def)
  have n: "first_by_email sample_db (lf_email (form carol_login)) = None"
    by (simp add: first_by_email_def carol_login_def sample_defs)
  show ?thesis
    using v1 v2 e c m n
      login_succeeds_iff [OF v1, of toy_check sample_db undefined "\<lambda>f. True" carol_form
        sample_db toy_hash "''salt''"]
    by simp
qed

subsection \<open>Commenting\<close>

text \<open>
  Claim C4, as stated, fails at a post id the database cannot hold: nobody is logged
  in, the comment form validates, and the request for post \<open>2\<^sup>6\<^sup>3\<close> ends in the
  lookup's \<open>OverflowError\<close>, not in the redirect to the login page.
\<close>

theorem anonymous_comment_overflow:
  "\<not> is_authenticated (current_user sample_db)
   \<and> validate_on_submit (\<lambda>f. True) nice_comment
   \<and> show_post (\<lambda>f. True) nice_comment 9223372036854775808 sample_db
       = (Unhandled OverflowError, sample_db)
   \<and> fst (show_post (\<lambda>f. True) nice_comment 9223372036854775808 sample_db) \<noteq> Redirect Ep_login"
proof -
  have a: "current_user sample_db = AnonymousUser"
    by (simp add: current_user_def sample_db_def)
  have v: "validate_on_submit (\<lambda>f. True) nice_comment"
    by (simp add: nice_comment_def vos_True)
  have n: "\<not> sqlite_integer 9223372036854775808"
    by (simp add: sqlite_integer_def)
  show ?thesis
    by (simp add: a v show_post_def get_blog_post_out_of_range [OF n])
qed

text \<open>
  Claim C4, as the program keeps it. When nobody is logged in, \<open>show_post\<close> leaves the
  comment rows (and the users and posts) unchanged for every request and every post id.
  A submitted comment form that validates is answered with a redirect to the login
  page whenever the post id is an integer the database can hold; for any other post id
  the lookup of the post, which comes before the test of the user, raises and the
  state is unchanged.
\<close>

theorem anonymous_comment_rejected:
  assumes "\<not> is_authenticated (current_user s)"
  shows "comments (snd (show_post validate req post_id s)) = comments s
       \<and> users (snd (show_post validate req post_id s)) = users s
       \<and> blog_posts (snd (show_post validate req post_id s)) = blog_posts s
       \<and> (validate_on_submit validate req \<and> sqlite_integer post_id \<longrightarrow>
            show_post validate req post_id s
              = (Redirect Ep_login, flash ''You need to log in or register to comment.'' s))
       \<and> (\<not> sqlite_integer post_id \<longrightarrow>
            show_post validate req post_id s = (Unhandled OverflowError, s))"
proof -
  from assms have a: "current_user s = AnonymousUser"
    by (cases "current_user s") simp_all
  show ?thesis
  proof (cases "sqlite_integer post_id")
    case True
    then show ?thesis
      by (simp add: show_post_def a flash_def get_blog_post_in_range)
  next
    case False
    then show ?thesis
      by (simp add: show_post_def get_blog_post_out_of_range)
  qed
qed

lemma cu_anonymous: "current_user sample_db = AnonymousUser"
  by (simp add: current_user_def sample_db_def)

theorem anonymous_comment_rejected_witness:
  "\<not> is_authenticated (current_user sample_db)
   \<and> validate_on_submit (\<lambda>f. True) nice_comment
   \<and> sqlite_integer 1
   \<and> comments (snd (show_post (\<lambda>f. True) nice_comment 1 sample_db)) = []
   \<and> fst (show_post (\<lambda>f. True) nice_comment 1 sample_db) = Redirect Ep_login"
proof -
  have h: "\<not> is_authenticated (current_user sample_db)"
    by (simp add: cu_anonymous)
  have v: "validate_on_submit (\<lambda>f. True) nice_comment"
    by (simp add: nice_comment_def vos_True)
  have c: "comments sample_db = []"
    by (simp add: sample_db_def)
  show ?thesis
    using h v c sqlite_integer_small(1)
      anonymous_comment_rejected [OF h, of "\<lambda>f. True" nice_comment 1]
    by (simp add: flash_def)
qed

subsection \<open>Creating a post\<close>

lemma cu_alice: "current_user (sample_db\<lparr>session := Some 1\<rparr>) = LoggedIn alice"
  by (simp add: current_user_def load_user_def get_user_def sample_defs)

lemma is_admin_alice: "is_admin (sample_db\<lparr>session := Some 1\<rparr>)"
  by (simp add: is_admin_def cu_alice) (simp add: alice_def)

text \<open>
  Claim C8. When the administrator submits a valid post form whose title is the title
  of a stored post, \<open>add_new_post\<close> fails with the integrity error of the unique
  constraint on \<open>blog_posts.title\<close>, and the state, hence the number of posts, is
  unchanged.
\<close>

theorem duplicate_title_rejected:
  assumes "is_admin s" "validate_on_submit validate req"
    "pf_title (form req) \<in> set (map bp_title (blog_posts s))"
  shows "add_new_post validate today req s = (Unhandled (IntegrityError ''blog_posts.title''), s)
       \<and> length (blog_posts (snd (add_new_post validate today req s))) = length (blog_posts s)"
proof -
  from assms(1) obtain u where u: "current_user s = LoggedIn u"
    by (auto simp: is_admin_iff)
  have "add_new_post validate today req s = add_new_post_body validate today req s"
    by (simp add: add_new_post_def admin_only_admin [OF assms(1)])
  also have "\<dots> = (Unhandled (IntegrityError ''blog_posts.title''), s)"
    using assms(2,3) by (simp add: add_new_post_body_def u add_blog_post_def Let_def)
  finally show ?thesis by simp
qed

theorem duplicate_title_rejected_witness:
  "is_admin (sample_db\<lparr>session := Some 1\<rparr>)
   \<and> validate_on_submit (\<lambda>f. True) \<lparr>req_method = POST, form = post_form\<rparr>
   \<and> pf_title post_form \<in> set (map bp_title (blog_posts sample_db))
   \<and> add_new_post (\<lambda>f. True) ''November 03, 2026'' \<lparr>req_method = POST, form = post_form\<rparr>
        (sample_db\<lparr>session := Some 1\<rparr>)
       = (Unhandled (IntegrityError ''blog_posts.title''), sample_db\<lparr>session := Some 1\<rparr>)"
proof -
  have t: "pf_title (form \<lparr>req_method = POST, form = post_form\<rparr>)
            \<in> set (map bp_title (blog_posts (sample_db\<lparr>session := Some 1\<rparr>)))"
    by (simp add: sample_defs)
  show ?thesis
    using t is_admin_alice vos_True [of post_form]
      duplicate_title_rejected [OF is_admin_alice vos_True t, of "''November 03, 2026''"]
    by simp
qed

subsection \<open>Editing a post\<close>

lemma get_blog_post_Some:
  "get_blog_post s i = Inr (Some p) \<Longrightarrow>
     sqlite_integer i \<and> find_blog_post s i = Some p \<and> bp_id p = i \<and> p \<in> set (blog_posts s)"
  by (auto simp: get_blog_post_def find_blog_post_def find_Some_iff split: if_splits)

lemma find_id_map_update:
  assumes "find (\<lambda>p. bp_id p = i) xs = Some p" "\<And>q. bp_id (g q) = bp_id q"
  shows "find (\<lambda>p. bp_id p = i) (map (\<lambda>q. if bp_id q = i then g q else q) xs) = Some (g p)"
  using assms by (induction xs) (auto split: if_splits)

lemma edit_post_body_cases:
  assumes "get_blog_post s post_id = Inr (Some post)"
  shows "edit_post_body validate (req, post_id) s \<in>
    {(Render_template ''make-post.html'', s),
     (Unhandled (IntegrityError ''blog_posts.title''), s),
     (Redirect (Ep_show_post post_id),
      s\<lparr>blog_posts := map (\<lambda>q. if bp_id q = post_id
           then q\<lparr>bp_title := pf_title (form req),
                  bp_subtitle := pf_subtitle (form req),
                  bp_img_url := pf_img_url (form req),
                  bp_author_id := map_option u_id (pf_author (form req)),
                  bp_body := pf_body (form req)\<rparr>
           else q) (blog_posts s)\<rparr>)}"
  using get_blog_post_Some [OF assms]
  by (simp add: edit_post_body_def assms update_blog_post_def Let_def)

text \<open>
  Claim C9. For the administrator and an existing post, \<open>edit_post\<close> never changes a
  date or an id of any post, leaves every post with another id, the users, the comments
  and the session as they were, and either leaves the state unchanged or, when it
  redirects to the post, has set exactly the five form fields title, subtitle, img_url,
  author and body of the post.
\<close>

theorem edit_post_keeps_date:
  assumes "is_admin s" "get_blog_post s post_id = Inr (Some post)"
  shows "map bp_date (blog_posts (snd (edit_post validate req post_id s))) = map bp_date (blog_posts s)
       \<and> map bp_id (blog_posts (snd (edit_post validate req post_id s))) = map bp_id (blog_posts s)
       \<and> (\<forall>i < length (blog_posts s). bp_id (blog_posts s ! i) \<noteq> post_id \<longrightarrow>
            blog_posts (snd (edit_post validate req post_id s)) ! i = blog_posts s ! i)
       \<and> users (snd (edit_post validate req post_id s)) = users s
       \<and> comments (snd (edit_post validate req post_id s)) = comments s
       \<and> session (snd (edit_post validate req post_id s)) = session s
       \<and> (fst (edit_post validate req post_id s) = Redirect (Ep_show_post post_id) \<longrightarrow>
            get_blog_post (snd (edit_post validate req post_id s)) post_id
              = Inr (Some (post\<lparr>bp_title := pf_title (form req),
                               bp_subtitle := pf_subtitle (form req),
                               bp_img_url := pf_img_url (form req),
                               bp_author_id := map_option u_id (pf_author (form req)),
                               bp_body := pf_body (form req)\<rparr>)))
       \<and> (fst (edit_post validate req post_id s) \<noteq> Redirect (Ep_show_post post_id) \<longrightarrow>
            snd (edit_post validate req post_id s) = s)"
proof -
  let ?g = "\<lambda>q. q\<lparr>bp_title := pf_title (form req),
                  bp_subtitle := pf_subtitle (form req),
                  bp_img_url := pf_img_url (form req),
                  bp_author_id := map_option u_id (pf_author (form req)),
                  bp_body := pf_body (form req)\<rparr>"
  let ?f = "\<lambda>q. if bp_id q = post_id then ?g q else q"
  have e: "edit_post validate req post_id s = edit_post_body validate (req, post_id) s"
    by (simp add: edit_post_def admin_only_admin [OF assms(1)])
  have d: "map bp_date (map ?f xs) = map bp_date xs" for xs
    by (induction xs) simp_all
  have i: "map bp_id (map ?f xs) = map bp_id xs" for xs
    by (induction xs) simp_all
  have g: "get_blog_post (s\<lparr>blog_posts := map ?f (blog_posts s)\<rparr>) post_id
             = Inr (Some (?g post))"
    using get_blog_post_Some [OF assms(2)]
      find_id_map_update [of post_id "blog_posts s" post ?g]
    by (simp add: get_blog_post_def find_blog_post_def)
  from edit_post_body_cases [OF assms(2), of validate req]
  consider (unchanged) "snd (edit_post validate req post_id s) = s"
      "fst (edit_post validate req post_id s) \<noteq> Redirect (Ep_show_post post_id)"
    | (updated) "edit_post validate req post_id s
        = (Redirect (Ep_show_post post_id), s\<lparr>blog_posts := map ?f (blog_posts s)\<rparr>)"
    unfolding e by auto
  then show ?thesis
  proof cases
    case unchanged
    then show ?thesis by simp
  next
    case updated
    then show ?thesis by (simp add: d i g)
  qed
qed

theorem edit_post_keeps_date_witness:
  "is_admin (sample_db\<lparr>session := Some 1\<rparr>)
   \<and> get_blog_post (sample_db\<lparr>session := Some 1\<rparr>) 1 = Inr (Some hello_post)
   \<and> fst (edit_post (\<lambda>f. True) \<lparr>req_method = POST, form = post_form\<rparr> 1
            (sample_db\<lparr>session := Some 1\<rparr>)) = Redirect (Ep_show_post 1)
   \<and> get_blog_post (snd (edit_post (\<lambda>f. True) \<lparr>req_method = POST, form = post_form\<rparr> 1
            (sample_db\<lparr>session := Some 1\<rparr>))) 1
       = Inr (Some \<lparr>bp_id = 1, bp_author_id = Some 1, bp_title = ''Hello'',
                    bp_subtitle = ''Again'', bp_date = ''August 01, 2021'', bp_body = ''More'',
                    bp_img_url = ''http://img2''\<rparr>)
   \<and> map bp_date (blog_posts (snd (edit_post (\<lambda>f. True) \<lparr>req_method = POST, form = post_form\<rparr> 1
            (sample_db\<lparr>session := Some 1\<rparr>)))) = [''August 01, 2021'']"
proof -
  have g: "get_blog_post (sample_db\<lparr>session := Some 1\<rparr>) 1 = Inr (Some hello_post)"
    by (simp add: get_blog_post_in_range sqlite_integer_small find_blog_post_def sample_defs)
  have r: "fst (edit_post (\<lambda>f. True) \<lparr>req_method = POST, form = post_form\<rparr> 1
            (sample_db\<lparr>session := Some 1\<rparr>)) = Redirect (Ep_show_post 1)"
    by (simp add: edit_post_def admin_only_admin [OF is_admin_alice] edit_post_body_def g vos_True
        update_blog_post_def Let_def)
      (simp add: sample_defs)
  have d: "map bp_date (blog_posts (sample_db\<lparr>session := Some 1\<rparr>)) = [''August 01, 2021'']"
    by (simp add: sample_defs)
  have a: "map_option u_id (pf_author post_form) = Some 1"
    by (simp add: post_form_def alice_def)
  show ?thesis
    using is_admin_alice g r d
      edit_post_keeps_date [OF is_admin_alice g, of "\<lambda>f. True" "\<lparr>req_method = POST, form = post_form\<rparr>"]
    by (simp add: a) (simp add: hello_post_def post_form_def)
qed


text \<open>
  The route of \<open>edit_post\<close> lists no methods, so a request that reaches the view is
  not a submission: through its route the view writes nothing.
\<close>

lemma routed_get_not_submitted:
  "req_method req \<in> set (route_methods R_edit_post) \<Longrightarrow> \<not> validate_on_submit validate req"
  by (auto simp: validate_on_submit_def is_submitted_def)

lemma edit_post_route_no_write:
  assumes "req_method req \<in> set (route_methods R_edit_post)"
  shows "snd (edit_post validate req post_id s) = s"
  using routed_get_not_submitted [OF assms, of validate]
  by (simp add: edit_post_def admin_only_def edit_post_body_def Let_def
      split: identity.splits option.splits sum.splits)

subsection \<open>Posts that do not exist\<close>

lemma show_post_authenticated:
  assumes "current_user s = LoggedIn u" "validate_on_submit validate req"
    "sqlite_integer post_id"
  shows "show_post validate req post_id s =
    (Render_template ''post.html'',
     s\<lparr>comments := comments s @
        [\<lparr>c_id = next_id (map c_id (comments s)), c_text = cf_comment (form req),
          c_comment_author_id = Some (u_id u),
          c_parent_post_id = map_option bp_id (find_blog_post s post_id)\<rparr>]\<rparr>)"
  using assms by (simp add: show_post_def add_comment_def Let_def get_blog_post_in_range)

lemma delete_post_missing:
  assumes "is_admin s" "get_blog_post s post_id = Inr None"
  shows "delete_post post_id s = (Unhandled UnmappedInstanceError, s)"
  using assms by (simp add: delete_post_def admin_only_admin delete_post_body_def)

text \<open>
  Claim C6, evaluated: Bob is logged in and no post has id 7; his valid comment
  submitted to post 7 is stored, with no parent post, and the post page is rendered.
\<close>

theorem comment_on_missing_post_is_stored:
  "get_blog_post (sample_db\<lparr>session := Some 2\<rparr>) 7 = Inr None
   \<and> current_user (sample_db\<lparr>session := Some 2\<rparr>) = LoggedIn bob
   \<and> show_post (\<lambda>f. True) nice_comment 7 (sample_db\<lparr>session := Some 2\<rparr>)
       = (Render_template ''post.html'',
          sample_db\<lparr>session := Some 2,
                    comments := [\<lparr>c_id = 1, c_text = ''nice post'', c_comment_author_id = Some 2,
                                  c_parent_post_id = None\<rparr>]\<rparr>)"
proof -
  have g: "get_blog_post (sample_db\<lparr>session := Some 2\<rparr>) 7 = Inr None"
    by (simp add: get_blog_post_in_range sqlite_integer_small find_blog_post_def sample_defs)
  have f: "find_blog_post (sample_db\<lparr>session := Some 2\<rparr>) 7 = None"
    by (simp add: find_blog_post_def sample_defs)
  have v: "validate_on_submit (\<lambda>f. True) nice_comment"
    by (simp add: nice_comment_def vos_True)
  show ?thesis
    by (simp add: g cu_bob show_post_authenticated [OF cu_bob v sqlite_integer_small(2)] f)
      (simp add: sample_defs nice_comment_def next_id_def)
qed

text \<open>
  Claim C7, evaluated: the administrator deletes post 7, which does not exist; the view
  passes \<open>None\<close> to the session's delete, which raises, and the state is unchanged.
\<close>

theorem delete_missing_post_raises:
  "get_blog_post (sample_db\<lparr>session := Some 1\<rparr>) 7 = Inr None
   \<and> is_admin (sample_db\<lparr>session := Some 1\<rparr>)
   \<and> delete_post 7 (sample_db\<lparr>session := Some 1\<rparr>)
       = (Unhandled UnmappedInstanceError, sample_db\<lparr>session := Some 1\<rparr>)"
proof -
  have g: "get_blog_post (sample_db\<lparr>session := Some 1\<rparr>) 7 = Inr None"
    by (simp add: get_blog_post_in_range sqlite_integer_small find_blog_post_def sample_defs)
  show ?thesis
    by (simp add: g is_admin_alice delete_post_missing [OF is_admin_alice g])
qed

subsection \<open>Referential integrity\<close>

lemma db_registered_eq:
  "db_registered = \<lparr>users = [\<lparr>u_id = 1, u_email = ''alice@example.com'',
       u_password = ''salt$secret'', u_name = ''Alice Two''\<rparr>],
     blog_posts = [], comments = [], session = Some 1, flashes = []\<rparr>"
proof -
  have v: "validate_on_submit (\<lambda>f. True) alice_form"
    by (simp add: alice_form_def vos_True)
  have e: "rf_email (form alice_form) \<notin> set (map u_email (users empty_db))"
    by (simp add: empty_db_def)
  show ?thesis
    unfolding db_registered_def register_fresh [OF v e]
    by (simp add: empty_db_def registered_user_def alice_form_def toy_hash_def next_id_def)
qed

lemma cu_db_registered:
  "current_user db_registered = LoggedIn \<lparr>u_id = 1, u_email = ''alice@example.com'',
       u_password = ''salt$secret'', u_name = ''Alice Two''\<rparr>"
  by (simp add: db_registered_eq current_user_def load_user_def get_user_def)

lemma db_posted_eq:
  "db_posted = db_registered\<lparr>blog_posts :=
     [\<lparr>bp_id = 1, bp_author_id = Some 1, bp_title = ''Hello'', bp_subtitle = ''Again'',
       bp_date = ''November 03, 2026'', bp_body = ''More'', bp_img_url = ''http://img2''\<rparr>]\<rparr>"
proof -
  have a: "is_admin db_registered"
    by (simp add: is_admin_def cu_db_registered)
  show ?thesis
    unfolding db_posted_def add_new_post_def admin_only_admin [OF a]
    by (simp add: add_new_post_body_def vos_True cu_db_registered add_blog_post_def Let_def)
      (simp add: db_registered_eq post_form_def next_id_def)
qed

lemma cu_db_posted:
  "current_user db_posted = LoggedIn \<lparr>u_id = 1, u_email = ''alice@example.com'',
       u_password = ''salt$secret'', u_name = ''Alice Two''\<rparr>"
  by (simp add: db_posted_eq db_registered_eq current_user_def load_user_def get_user_def)

lemma db_commented_eq:
  "db_commented = db_posted\<lparr>comments :=
     [\<lparr>c_id = 1, c_text = ''nice post'', c_comment_author_id = Some 1, c_parent_post_id = Some 1\<rparr>]\<rparr>"
proof -
  have v: "validate_on_submit (\<lambda>f. True) nice_comment"
    by (simp add: nice_comment_def vos_True)
  show ?thesis
    unfolding db_commented_def
      show_post_authenticated [OF cu_db_posted v sqlite_integer_small(1)]
    by (simp add: db_posted_eq db_registered_eq nice_comment_def next_id_def find_blog_post_def)
qed

lemma cu_db_commented:
  "current_user db_commented = LoggedIn \<lparr>u_id = 1, u_email = ''alice@example.com'',
       u_password = ''salt$secret'', u_name = ''Alice Two''\<rparr>"
  by (simp add: db_commented_eq db_posted_eq db_registered_eq current_user_def load_user_def
      get_user_def)

lemma is_admin_db_commented: "is_admin db_commented"
  by (simp add: is_admin_def cu_db_commented)

lemmas ri_defs = referential_integrity_def valid_user_ref_def valid_post_ref_def
  get_user_def find_blog_post_def

lemma valid_user_ref_iff:
  "valid_user_ref s r \<longleftrightarrow> (\<exists>i. r = Some i \<and> i \<in> u_id ` set (users s))"
  by (auto simp: valid_user_ref_def get_user_def find_None_iff split: option.splits)

lemma valid_or_null_post_ref_iff:
  "valid_or_null_post_ref s r \<longleftrightarrow> (\<forall>i. r = Some i \<longrightarrow> i \<in> bp_id ` set (blog_posts s))"
  by (auto simp: valid_or_null_post_ref_def find_blog_post_def find_None_iff
      split: option.splits)

lemma integrity_iff:
  "integrity_up_to_orphans s \<longleftrightarrow>
     (\<forall>c \<in> set (comments s).
        (\<exists>i. c_comment_author_id c = Some i \<and> i \<in> u_id ` set (users s))
        \<and> (\<forall>j. c_parent_post_id c = Some j \<longrightarrow> j \<in> bp_id ` set (blog_posts s)))
     \<and> (\<forall>p \<in> set (blog_posts s). \<exists>i. bp_author_id p = Some i \<and> i \<in> u_id ` set (users s))"
  by (simp add: integrity_up_to_orphans_def list_all_iff valid_user_ref_iff
      valid_or_null_post_ref_iff)

lemma integrity_tables:
  assumes "users s' = users s" "blog_posts s' = blog_posts s" "comments s' = comments s"
  shows "integrity_up_to_orphans s' = integrity_up_to_orphans s"
  by (simp add: integrity_iff assms)

lemma current_user_LoggedIn: "current_user s = LoggedIn u \<Longrightarrow> u_id u \<in> u_id ` set (users s)"
  by (auto simp: current_user_def load_user_def get_user_def find_Some_iff
      split: option.splits)

lemma integrity_register:
  assumes "integrity_up_to_orphans s"
  shows "integrity_up_to_orphans (snd (register validate gen salt req s))"
proof (cases "validate_on_submit validate req")
  case False
  then show ?thesis using assms by (simp add: register_def)
next
  case v: True
  show ?thesis
  proof (cases "rf_email (form req) \<in> set (map u_email (users s))")
    case True
    show ?thesis
      unfolding register_existing [OF v True] snd_conv
      using assms integrity_tables [of "flash m s" s for m] by (simp add: flash_def)
  next
    case False
    show ?thesis
      unfolding register_fresh [OF v False] snd_conv
      using assms by (simp add: integrity_iff) blast
  qed
qed

lemma login_tables:
  "users (snd (login validate check req s)) = users s
   \<and> blog_posts (snd (login validate check req s)) = blog_posts s
   \<and> comments (snd (login validate check req s)) = comments s"
proof (cases "validate_on_submit validate req")
  case False
  then show ?thesis by (simp add: login_def)
next
  case v: True
  show ?thesis
  proof (cases "first_by_email s (lf_email (form req))")
    case None
    show ?thesis
      unfolding login_unknown [OF v None] by (simp add: flash_def)
  next
    case (Some u)
    show ?thesis
      unfolding login_known [OF v Some] by (simp add: flash_def)
  qed
qed

lemma integrity_login:
  assumes "integrity_up_to_orphans s"
  shows "integrity_up_to_orphans (snd (login validate check req s))"
  using assms login_tables [of validate check req s]
    integrity_tables [of "snd (login validate check req s)" s]
  by simp

lemma integrity_logout:
  "integrity_up_to_orphans s \<Longrightarrow> integrity_up_to_orphans (snd (logout s))"
  by (simp add: logout_def logout_user_def integrity_iff)

lemma integrity_show_post:
  assumes "integrity_up_to_orphans s"
  shows "integrity_up_to_orphans (snd (show_post validate req post_id s))"
proof (cases "sqlite_integer post_id")
  case False
  then show ?thesis using assms by (simp add: show_post_def get_blog_post_out_of_range)
next
  case r: True
  show ?thesis
  proof (cases "validate_on_submit validate req")
    case False
    then show ?thesis using assms by (simp add: show_post_def get_blog_post_in_range [OF r])
  next
    case v: True
    show ?thesis
    proof (cases "current_user s")
      case AnonymousUser
      then show ?thesis
        using assms v
        by (simp add: show_post_def get_blog_post_in_range [OF r] flash_def integrity_iff)
    next
      case (LoggedIn u)
      have p: "j \<in> bp_id ` set (blog_posts s)"
        if "map_option bp_id (find_blog_post s post_id) = Some j" for j
        using that by (auto simp: find_blog_post_def find_Some_iff)
      show ?thesis
        unfolding show_post_authenticated [OF LoggedIn v r] snd_conv
        using assms current_user_LoggedIn [OF LoggedIn] p
        by (simp add: integrity_iff)
    qed
  qed
qed

lemma integrity_admin_only:
  assumes "integrity_up_to_orphans s" "integrity_up_to_orphans (snd (function args s))"
  shows "integrity_up_to_orphans (snd (admin_only function args s))"
  using assms by (simp add: admin_only_def split: identity.splits)

lemma integrity_add_new_post:
  assumes "integrity_up_to_orphans s"
  shows "integrity_up_to_orphans (snd (add_new_post validate today req s))"
  unfolding add_new_post_def
proof (rule integrity_admin_only [OF assms])
  show "integrity_up_to_orphans (snd (add_new_post_body validate today req s))"
  proof (cases "current_user s")
    case AnonymousUser
    then show ?thesis using assms by (simp add: add_new_post_body_def)
  next
    case (LoggedIn u)
    then show ?thesis
      using assms current_user_LoggedIn [OF LoggedIn]
      by (simp add: add_new_post_body_def add_blog_post_def Let_def integrity_iff)
  qed
qed

lemma integrity_delete_post:
  assumes "integrity_up_to_orphans s"
  shows "integrity_up_to_orphans (snd (delete_post post_id s))"
  unfolding delete_post_def
proof (rule integrity_admin_only [OF assms])
  show "integrity_up_to_orphans (snd (delete_post_body post_id s))"
  proof (cases "get_blog_post s post_id")
    case (Inl e)
    then show ?thesis using assms by (simp add: delete_post_body_def)
  next
    case (Inr found)
    show ?thesis
    proof (cases found)
      case None
      then show ?thesis using assms Inr by (simp add: delete_post_body_def)
    next
      case (Some p)
      then show ?thesis
        using assms Inr
        by (simp add: delete_post_body_def delete_blog_post_def integrity_iff) force
    qed
  qed
qed

lemma integrity_step:
  assumes "integrity_up_to_orphans s"
  shows "integrity_up_to_orphans (step env e s)"
proof (cases e)
  case (Client c)
  then show ?thesis using assms by (simp add: integrity_iff)
next
  case (Req_edit_post req post_id)
  then show ?thesis
    using assms edit_post_route_no_write [of req]
    by (simp add: routed_def int_converter_def)
qed (use assms in \<open>simp_all add: routed_def int_converter_def get_all_posts_def about_def
      contact_def integrity_register integrity_login integrity_logout integrity_show_post
      integrity_add_new_post integrity_delete_post\<close>)

text \<open>
  Claim C5, as the program keeps it. In every state reached from the empty database by
  any sequence of requests to the routes, from any clients, every comment has an
  existing author, every post has an existing author, and every comment's parent post
  id is either the key of a stored post or NULL.
\<close>

theorem integrity_up_to_orphans_reachable:
  "integrity_up_to_orphans (run env events empty_db)"
proof -
  have "integrity_up_to_orphans s \<Longrightarrow> integrity_up_to_orphans (run env events s)" for s
    by (induction events arbitrary: s) (simp_all add: integrity_step)
  moreover have "integrity_up_to_orphans empty_db"
    by (simp add: integrity_iff empty_db_def)
  ultimately show ?thesis .
qed

lemma run_blog_history: "run sample_env blog_history empty_db = db_commented"
  by (simp add: blog_history_def sample_env_def routed_def int_converter_def alice_form_def
      nice_comment_def db_commented_def db_posted_def db_registered_def)

lemma run_append: "run env (es @ fs) s = run env fs (run env es s)"
  by (induction es arbitrary: s) simp_all

text \<open>
  Full referential integrity is not kept. It holds after a registration, a post and a
  comment on the post; when the administrator then deletes the post, the comment stays
  behind with no parent post.
\<close>

theorem comments_orphaned_by_delete:
  "referential_integrity (run sample_env blog_history empty_db)
   \<and> \<not> referential_integrity (run sample_env (blog_history @ [Req_delete_post GET 1]) empty_db)"
proof -
  note a = is_admin_db_commented
  have 1: "referential_integrity db_commented"
    by (simp add: ri_defs db_commented_eq db_posted_eq db_registered_eq)
  have 2: "\<not> referential_integrity (snd (delete_post 1 db_commented))"
    unfolding delete_post_def admin_only_admin [OF a]
    by (simp add: delete_post_body_def delete_blog_post_def get_blog_post_in_range
        sqlite_integer_small ri_defs db_commented_eq db_posted_eq db_registered_eq)
  from 1 2 show ?thesis
    by (simp add: run_append run_blog_history routed_def int_converter_def)
qed

theorem integrity_up_to_orphans_reachable_witness:
  "integrity_up_to_orphans (run sample_env (blog_history @ [Req_delete_post GET 1]) empty_db)
   \<and> comments (run sample_env (blog_history @ [Req_delete_post GET 1]) empty_db)
       = [\<lparr>c_id = 1, c_text = ''nice post'', c_comment_author_id = Some 1,
            c_parent_post_id = None\<rparr>]
   \<and> blog_posts (run sample_env (blog_history @ [Req_delete_post GET 1]) empty_db) = []"
proof -
  note a = is_admin_db_commented
  have r: "run sample_env (blog_history @ [Req_delete_post GET 1]) empty_db
            = snd (delete_post 1 db_commented)"
    by (simp add: run_append run_blog_history routed_def int_converter_def)
  have d: "comments (snd (delete_post 1 db_commented))
            = [\<lparr>c_id = 1, c_text = ''nice post'', c_comment_author_id = Some 1,
                 c_parent_post_id = None\<rparr>]
         \<and> blog_posts (snd (delete_post 1 db_commented)) = []"
    unfolding delete_post_def admin_only_admin [OF a]
    by (simp add: delete_post_body_def delete_blog_post_def get_blog_post_in_range
        sqlite_integer_small find_blog_post_def db_commented_eq db_posted_eq db_registered_eq)
  show ?thesis
    using integrity_up_to_orphans_reachable [of sample_env "blog_history @ [Req_delete_post GET 1]"] d
    unfolding r by simp
qed

text \<open>A comment submitted to a post id that does not exist loses it as well.\<close>

lemma integrity_lost_by_comment_on_missing_post:
  "\<not> referential_integrity
        (run sample_env (blog_history @ [Req_show_post nice_comment 7]) empty_db)"
proof -
  have v: "validate_on_submit (\<lambda>f. True) nice_comment"
    by (simp add: nice_comment_def vos_True)
  note cu = cu_db_commented
  have "\<not> referential_integrity (snd (show_post (\<lambda>f. True) nice_comment 7 db_commented))"
    unfolding show_post_authenticated [OF cu v sqlite_integer_small(2)]
    by (simp add: ri_defs db_commented_eq db_posted_eq db_registered_eq)
  then show ?thesis
    by (simp add: run_append run_blog_history routed_def int_converter_def)
      (simp add: sample_env_def nice_comment_def)
qed

end
